theory Spec2Isabelle
  imports Main "HOL-Library.Word"
begin

section \<open>Data model\<close>

text \<open>
  Go's \<^verbatim>\<open>string\<close> and \<^verbatim>\<open>[]byte\<close> are both sequences of 8-bit bytes, and
  \<^verbatim>\<open>len\<close> counts bytes. A \<^typ>\<open>char\<close> is one byte, so both are modelled as
  \<^typ>\<open>string\<close> and \<^verbatim>\<open>len\<close> as \<^const>\<open>length\<close>.
  An \<^verbatim>\<open>error\<close> value is modelled by its message.
\<close>

type_synonym bytes = string
type_synonym error = string

text \<open>\<^verbatim>\<open>time.Duration\<close> is an \<^verbatim>\<open>int64\<close> of nanoseconds; it is read signed.\<close>

type_synonym Duration = "64 word"

definition Minute :: Duration where
  "Minute = 60000000000"

text \<open>\<^verbatim>\<open>net.UDPAddr\<close> of the standard library.\<close>

record UDPAddr =
  IP :: bytes
  Port :: int
  Zone :: string

text \<open>
  Modelled from the spec: the package \<^verbatim>\<open>data\<close> (the decoded payload and its three
  sections) is not part of the source. The collector reads only the \<^verbatim>\<open>NodeID\<close> field of a
  section, and whether the section pointer is nil (\<^const>\<open>None\<close>).
\<close>

record NodeInfo =
  NodeID :: string

record Neighbours =
  NodeID :: string

record Statistics =
  NodeID :: string

record ResponseData =
  NodeInfo :: "NodeInfo option"
  Statistics :: "Statistics option"
  Neighbours :: "Neighbours option"

text \<open>
  Modelled from the spec: \<^verbatim>\<open>models.Node\<close>, the merged per-node state the registry returns,
  is not part of the source. The collector reads only whether its \<^verbatim>\<open>Statistics\<close> pointer
  is nil.
\<close>

record Node =
  Statistics :: "Statistics option"
  Nodeinfo :: "NodeInfo option"
  Neighbours :: "Neighbours option"

text \<open>
  Modelled from the spec: the type \<^verbatim>\<open>Response\<close> (a received datagram with its source
  address) is declared in another file of the package.
\<close>

record Response =
  Address :: UDPAddr
  Raw :: bytes

section \<open>Environment\<close>

text \<open>
  The collector calls into the standard library (\<^verbatim>\<open>net\<close>, \<^verbatim>\<open>compress/flate\<close>,
  \<^verbatim>\<open>encoding/json\<close>) and into the packages \<^verbatim>\<open>models\<close> and \<^verbatim>\<open>database\<close>, none of
  which is part of the source. Their functions and the package constants declared in another
  file (\<^verbatim>\<open>multiCastGroup\<close>, \<^verbatim>\<open>port\<close>, \<^verbatim>\<open>maxDataGramSize\<close>) are parameters, collected
  in one record. \<^verbatim>\<open>'nodes\<close> is the state of the registry \<^verbatim>\<open>models.Nodes\<close>, and
  \<^verbatim>\<open>'f\<close> is what \<^verbatim>\<open>GlobalStats.Fields()\<close> returns.
\<close>

type_synonym CounterMap = "string \<rightharpoonup> int"

record 'f GlobalStats =
  Fields :: 'f
  Firmwares :: CounterMap
  Models :: CounterMap

record ('nodes, 'f) env =
  ResolveUDPAddr :: "string \<Rightarrow> string \<Rightarrow> error + UDPAddr"
  ListenUDP :: "string \<Rightarrow> UDPAddr \<Rightarrow> error option"
  inflate_decode :: "bytes \<Rightarrow> ResponseData \<times> error option"
  nodes_Update :: "'nodes \<Rightarrow> string \<Rightarrow> ResponseData \<Rightarrow> Node \<times> 'nodes"
  NewGlobalStats :: "'nodes \<Rightarrow> 'f GlobalStats"
  multiCastGroup :: string
  port :: string
  maxDataGramSize :: nat
  MeasurementGlobal :: string
  MeasurementFirmware :: string
  MeasurementModel :: string

section \<open>Effects\<close>

text \<open>
  Every effect of the collector is an event of a trace, in the order the code produces
  them: log lines, datagram writes, registry updates, sink writes, the closing of the stop
  channel, the socket and the queue, the entries sent to and received from the queue, and
  the goroutines spawned with \<^verbatim>\<open>go\<close>.
  A function of the collector returns the collector as it leaves it, the events it produced,
  and the panic it ended with, if any: what it did before a panic stays done.
\<close>

datatype task = T_receiver | T_parser | T_globalStatsWorker | T_sender

datatype 'f event =
    Log_unable_to_decode UDPAddr error bytes
  | Log_invalid_NodeID string UDPAddr
  | Log_WriteToUDP_failed error
  | Log_ReadFromUDP_failed error
  | WriteToUDP bytes UDPAddr
  | Nodes_Update string ResponseData
  | Db_Add string Node
  | Db_AddPoint string "(string \<rightharpoonup> string) option" 'f int
  | Db_AddCounterMap string CounterMap
  | SetReadBuffer nat
  | Close_stop
  | Close_connection
  | Close_queue
  | Queue_send Response
  | Queue_recv Response
  | Go task
  | Panics string

section \<open>Channels\<close>

text \<open>
  A Go channel: its buffer (oldest entry first), its capacity, fixed by \<^verbatim>\<open>make\<close>, and
  whether it has been closed. A send on a closed channel panics, and so does closing a
  closed channel; a send on a full channel blocks; a receive takes the oldest buffered entry,
  also from a closed channel, and reports a closed and drained channel only when the buffer
  is empty.
\<close>

record 'a chan =
  buf :: "'a list"
  cap :: nat
  closed :: bool

definition make_chan :: "nat \<Rightarrow> 'a chan" where
  "make_chan n = \<lparr>buf = [], cap = n, closed = False\<rparr>"

datatype 'a attempt = Done 'a | Blocked | Panic string

definition chan_send :: "'a chan \<Rightarrow> 'a \<Rightarrow> 'a chan attempt" where
  "chan_send c x =
     (if closed c then Panic ''send on closed channel''
      else if length (buf c) < cap c then Done (c\<lparr>buf := buf c @ [x]\<rparr>)
      else Blocked)"

datatype 'a received = Received 'a | Drained

text \<open>A receive that would block is \<^const>\<open>None\<close>.\<close>

definition chan_recv :: "'a chan \<Rightarrow> ('a received \<times> 'a chan) option" where
  "chan_recv c =
     (case buf c of
        x # xs \<Rightarrow> Some (Received x, c\<lparr>buf := xs\<rparr>)
      | [] \<Rightarrow> if closed c then Some (Drained, c) else None)"

definition chan_close :: "'a chan \<Rightarrow> string + 'a chan" where
  "chan_close c =
     (if closed c then Inl ''close of closed channel'' else Inr (c\<lparr>closed := True\<rparr>))"

section \<open>The collector\<close>

record ('nodes, 'db) Collector =
  connection_closed :: bool
  queue :: "Response chan"
  multicastAddr :: string
  db :: "'db option"
  nodes :: 'nodes
  interval :: Duration
  stop :: "unit chan"

subsection \<open>\<^verbatim>\<open>parse\<close> and \<^verbatim>\<open>saveResponse\<close>\<close>

text \<open>
  \<^verbatim>\<open>parse\<close> inflates the raw bytes and decodes the JSON into a fresh \<^verbatim>\<open>ResponseData\<close>;
  both steps belong to the standard library. It returns the record together with the error.
\<close>

definition parse :: "('nodes, 'f) env \<Rightarrow> Response \<Rightarrow> ResponseData \<times> error option" where
  "parse E res = inflate_decode E (Raw res)"

text \<open>The search for the NodeID at the head of \<^verbatim>\<open>saveResponse\<close>; \<^verbatim>\<open>nodeID\<close> starts empty.\<close>

definition searchNodeID :: "ResponseData \<Rightarrow> string" where
  "searchNodeID res =
     (case ResponseData.NodeInfo res of
        Some val \<Rightarrow> NodeInfo.NodeID val
      | None \<Rightarrow>
        (case ResponseData.Neighbours res of
           Some val \<Rightarrow> Neighbours.NodeID val
         | None \<Rightarrow>
           (case ResponseData.Statistics res of
              Some val \<Rightarrow> Statistics.NodeID val
            | None \<Rightarrow> [])))"

definition saveResponse ::
  "('nodes, 'f) env \<Rightarrow> ('nodes, 'db) Collector \<Rightarrow> UDPAddr \<Rightarrow> ResponseData
     \<Rightarrow> ('nodes, 'db) Collector \<times> 'f event list" where
  "saveResponse E coll addr res =
     (let nodeID = searchNodeID res in
      if length nodeID \<noteq> 12 then (coll, [Log_invalid_NodeID nodeID addr])
      else
        (case nodes_Update E (nodes coll) nodeID res of
           (node, nodes') \<Rightarrow>
             (coll\<lparr>nodes := nodes'\<rparr>,
              Nodes_Update nodeID res #
              (if db coll \<noteq> None \<and> Node.Statistics node \<noteq> None
               then [Db_Add nodeID node] else []))))"

type_synonym ('nodes, 'db, 'f) result = "('nodes, 'db) Collector \<times> 'f event list \<times> string option"

subsection \<open>\<^verbatim>\<open>NewCollector\<close>, \<^verbatim>\<open>Start\<close>, \<^verbatim>\<open>Close\<close>\<close>

text \<open>\<^verbatim>\<open>net.JoinHostPort\<close>: a host with a colon or a percent sign is put in brackets.\<close>

definition JoinHostPort :: "string \<Rightarrow> string \<Rightarrow> string" where
  "JoinHostPort host prt =
     (if CHR '':'' \<in> set host \<or> CHR ''%'' \<in> set host
      then ''['' @ host @ '']:'' @ prt
      else host @ '':'' @ prt)"

text \<open>
  \<^verbatim>\<open>NewCollector\<close> resolves the local wildcard address and opens the socket; either failure
  is a \<^verbatim>\<open>log.Panic\<close>. The multicast address is only joined into a string. The result is the
  new collector and the events of the construction, among them the goroutines it spawned.
\<close>

definition NewCollector ::
  "('nodes, 'f) env \<Rightarrow> 'db option \<Rightarrow> 'nodes \<Rightarrow> string
     \<Rightarrow> string + ('nodes, 'db) Collector \<times> 'f event list" where
  "NewCollector E db0 nodes0 iface =
     (case ResolveUDPAddr E ''udp'' ''[::]:0'' of
        Inl err \<Rightarrow> Inl err
      | Inr addr \<Rightarrow>
        (case ListenUDP E ''udp'' addr of
           Some err \<Rightarrow> Inl err
         | None \<Rightarrow>
           (let collector =
              \<lparr>connection_closed = False,
               queue = make_chan 400,
               multicastAddr = JoinHostPort (multiCastGroup E @ ''%'' @ iface) (port E),
               db = db0,
               nodes = nodes0,
               interval = 0,
               stop = make_chan 0\<rparr>
            in Inr (collector,
                    [SetReadBuffer (maxDataGramSize E), Go T_receiver, Go T_parser] @
                    (if db collector \<noteq> None then [Go T_globalStatsWorker] else [])))))"

definition Start ::
  "('nodes, 'db) Collector \<Rightarrow> Duration \<Rightarrow> ('nodes, 'db, 'f) result" where
  "Start coll interval' =
     (if interval coll \<noteq> 0 then (coll, [], Some ''already started'')
      else if sint interval' \<le> 0 then (coll, [], Some ''invalid collector interval'')
      else (coll\<lparr>interval := interval'\<rparr>, [Go T_sender], None))"

text \<open>
  \<^verbatim>\<open>Close\<close>: three statements in a row. Closing a closed channel panics; closing a closed
  socket only returns an error, which \<^verbatim>\<open>Close\<close> drops.
\<close>

definition Close :: "('nodes, 'db) Collector \<Rightarrow> ('nodes, 'db, 'f) result" where
  "Close coll =
     (case chan_close (stop coll) of
        Inl msg \<Rightarrow> (coll, [], Some msg)
      | Inr stop' \<Rightarrow>
        (let coll1 = coll\<lparr>stop := stop'\<rparr>;
             coll2 = coll1\<lparr>connection_closed := True\<rparr>
         in case chan_close (queue coll2) of
              Inl msg \<Rightarrow> (coll2, [Close_stop, Close_connection], Some msg)
            | Inr queue' \<Rightarrow>
                (coll2\<lparr>queue := queue'\<rparr>, [Close_stop, Close_connection, Close_queue], None)))"

subsection \<open>Sending\<close>

text \<open>
  \<^verbatim>\<open>SendPacket\<close> resolves the address (\<^verbatim>\<open>log.Panic\<close> on failure) and makes one call of
  \<^verbatim>\<open>WriteToUDP\<close>. What the write returns is the environment's choice; it is the argument
  \<open>werr\<close>. A failed write is logged.
\<close>

definition request :: bytes where
  "request = ''GET nodeinfo statistics neighbours''"

definition SendPacket ::
  "('nodes, 'f) env \<Rightarrow> ('nodes, 'db) Collector \<Rightarrow> string \<Rightarrow> error option
     \<Rightarrow> ('nodes, 'db, 'f) result" where
  "SendPacket E coll address werr =
     (case ResolveUDPAddr E ''udp'' address of
        Inl err \<Rightarrow> (coll, [], Some err)
      | Inr addr \<Rightarrow>
        (coll,
         WriteToUDP request addr #
         (case werr of Some err \<Rightarrow> [Log_WriteToUDP_failed err] | None \<Rightarrow> []),
         None))"

definition sendOnce ::
  "('nodes, 'f) env \<Rightarrow> ('nodes, 'db) Collector \<Rightarrow> error option \<Rightarrow> ('nodes, 'db, 'f) result" where
  "sendOnce E coll werr = SendPacket E coll (multicastAddr coll) werr"

subsection \<open>The parser's loop body\<close>

text \<open>One round of \<^verbatim>\<open>for obj := range coll.queue\<close>, for the entry \<open>obj\<close> it received.\<close>

definition parser_body ::
  "('nodes, 'f) env \<Rightarrow> ('nodes, 'db) Collector \<Rightarrow> Response
     \<Rightarrow> ('nodes, 'db) Collector \<times> 'f event list" where
  "parser_body E coll obj =
     (case parse E obj of
        (data, Some err) \<Rightarrow> (coll, [Log_unable_to_decode (Address obj) err (Raw obj)])
      | (data, None) \<Rightarrow> saveResponse E coll (Address obj) data)"

subsection \<open>Global statistics\<close>

text \<open>
  \<^verbatim>\<open>saveGlobalStats\<close> calls three methods of the sink with no nil check. The package
  \<^verbatim>\<open>database\<close> is not part of the source; its methods are taken to read their receiver, so
  that a call on a nil sink is a nil pointer dereference. \<open>now\<close> is \<^verbatim>\<open>time.Now()\<close>.
\<close>

definition saveGlobalStats ::
  "('nodes, 'f) env \<Rightarrow> ('nodes, 'db) Collector \<Rightarrow> int \<Rightarrow> ('nodes, 'db, 'f) result" where
  "saveGlobalStats E coll now =
     (let stats = NewGlobalStats E (nodes coll) in
      case db coll of
        None \<Rightarrow> (coll, [], Some ''invalid memory address or nil pointer dereference'')
      | Some d \<Rightarrow>
        (coll,
         [Db_AddPoint (MeasurementGlobal E) None (Fields stats) now,
          Db_AddCounterMap (MeasurementFirmware E) (Firmwares stats),
          Db_AddCounterMap (MeasurementModel E) (Models stats)],
         None))"

section \<open>Goroutines\<close>

text \<open>
  A goroutine is modelled by the point of its code it stands at, and one step takes it from
  one blocking call to the next. What the environment decides (the datagram a read returns,
  the result of a write, the case a \<^verbatim>\<open>select\<close> takes, the clock) is the input of the step.
  A step that cannot be taken (the goroutine is blocked) is \<^const>\<open>None\<close>.
\<close>

subsection \<open>\<^verbatim>\<open>receiver\<close>\<close>

datatype rstate = R_read | R_send Response | R_exited

datatype read_result = Read_datagram bytes UDPAddr | Read_error error

fun is_datagram :: "read_result \<Rightarrow> bool" where
  "is_datagram (Read_datagram payload src) = True"
| "is_datagram (Read_error err) = False"

text \<open>
  \<^verbatim>\<open>ReadFromUDP\<close> fills the buffer of \<^verbatim>\<open>maxDataGramSize\<close> bytes with the head of the
  datagram and returns the number of bytes \<open>n\<close> it stored; the entry holds a copy of the
  first \<open>n\<close> bytes of the buffer. A read error is logged and ends the goroutine.
\<close>

definition receiver_read :: "('nodes, 'f) env \<Rightarrow> read_result \<Rightarrow> rstate \<times> 'f event list" where
  "receiver_read E rr =
     (case rr of
        Read_error err \<Rightarrow> (R_exited, [Log_ReadFromUDP_failed err])
      | Read_datagram payload src \<Rightarrow>
          (let n = min (length payload) (maxDataGramSize E);
               raw = take n payload
           in (R_send \<lparr>Address = src, Raw = raw\<rparr>, [])))"

text \<open>The send \<^verbatim>\<open>coll.queue <- &Response{...}\<close>.\<close>

definition receiver_send ::
  "('nodes, 'db) Collector \<Rightarrow> Response \<Rightarrow> (rstate \<times> ('nodes, 'db, 'f) result) option" where
  "receiver_send coll r =
     (case chan_send (queue coll) r of
        Blocked \<Rightarrow> None
      | Panic msg \<Rightarrow> Some (R_exited, (coll, [], Some msg))
      | Done queue' \<Rightarrow> Some (R_read, (coll\<lparr>queue := queue'\<rparr>, [Queue_send r], None)))"

subsection \<open>\<^verbatim>\<open>parser\<close>\<close>

datatype pstate = P_range | P_exited

text \<open>
  \<^verbatim>\<open>for obj := range coll.queue\<close>: receive an entry and run the body on it; leave
  the loop when the queue is closed and drained.
\<close>

definition parser_next ::
  "('nodes, 'f) env \<Rightarrow> ('nodes, 'db) Collector
     \<Rightarrow> (pstate \<times> ('nodes, 'db) Collector \<times> 'f event list) option" where
  "parser_next E coll =
     (case chan_recv (queue coll) of
        None \<Rightarrow> None
      | Some (Drained, queue') \<Rightarrow> Some (P_exited, coll, [])
      | Some (Received obj, queue') \<Rightarrow>
          (case parser_body E (coll\<lparr>queue := queue'\<rparr>) obj of
             (coll', evs) \<Rightarrow> Some (P_range, coll', Queue_recv obj # evs)))"

text \<open>
  The loop run on its own, with no other goroutine in between: it goes on until the queue
  is closed and drained (\<^const>\<open>P_exited\<close>) or the receive blocks (\<^const>\<open>P_range\<close>). Every
  round takes one entry off the queue, so the loop ends.
\<close>

function parser ::
  "('nodes, 'f) env \<Rightarrow> ('nodes, 'db) Collector
     \<Rightarrow> pstate \<times> ('nodes, 'db) Collector \<times> 'f event list" where
  "parser E c =
     (case parser_next E c of
        None \<Rightarrow> (P_range, c, [])
      | Some (P_exited, c', evs) \<Rightarrow> (P_exited, c', evs)
      | Some (P_range, c', evs) \<Rightarrow>
          (case parser E c' of (p, c'', evs') \<Rightarrow> (p, c'', evs @ evs')))"
  by pat_completeness auto
termination
  apply (relation "measure (\<lambda>(E, c). length (buf (queue c)))")
   apply simp
  apply (auto simp: parser_next_def chan_recv_def parser_body_def saveResponse_def Let_def
      split: list.splits if_splits prod.splits option.splits)
  done

declare parser.simps [simp del]

subsection \<open>\<^verbatim>\<open>sender\<close> and \<^verbatim>\<open>globalStatsWorker\<close>\<close>

text \<open>
  The goroutine of \<^verbatim>\<open>Start\<close> runs \<^verbatim>\<open>sendOnce\<close> and then \<^verbatim>\<open>sender\<close>, which creates its
  ticker from \<^verbatim>\<open>coll.interval\<close> and loops over a \<^verbatim>\<open>select\<close>. \<^verbatim>\<open>globalStatsWorker\<close>
  creates its ticker from \<^verbatim>\<open>time.Minute\<close> and loops the same way. The state of the loop
  keeps the period of its ticker.
\<close>

datatype gstate = G_sendOnce | G_newTicker | G_select Duration | G_exited

text \<open>\<^verbatim>\<open>time.NewTicker\<close> panics on a period that is not positive.\<close>

definition NewTicker :: "Duration \<Rightarrow> string + Duration" where
  "NewTicker d =
     (if sint d \<le> 0 then Inl ''non-positive interval for NewTicker'' else Inr d)"

text \<open>
  The case a \<^verbatim>\<open>select\<close> takes. The case \<^verbatim>\<open><-coll.stop\<close> can be taken only when the
  receive from \<^verbatim>\<open>stop\<close> does not block; the tick carries what the environment supplies to
  the work done at the tick.
\<close>

datatype 'x select = Sel_stop | Sel_tick 'x

definition go_sendOnce ::
  "('nodes, 'f) env \<Rightarrow> ('nodes, 'db) Collector \<Rightarrow> error option
     \<Rightarrow> gstate \<times> ('nodes, 'db, 'f) result" where
  "go_sendOnce E coll werr =
     (case sendOnce E coll werr of
        (coll', evs, Some msg) \<Rightarrow> (G_exited, (coll', evs, Some msg))
      | (coll', evs, None) \<Rightarrow> (G_newTicker, (coll', evs, None)))"

definition sender_newTicker ::
  "('nodes, 'db) Collector \<Rightarrow> gstate \<times> ('nodes, 'db, 'f) result" where
  "sender_newTicker coll =
     (case NewTicker (interval coll) of
        Inl msg \<Rightarrow> (G_exited, (coll, [], Some msg))
      | Inr d \<Rightarrow> (G_select d, (coll, [], None)))"

definition sender_select ::
  "('nodes, 'f) env \<Rightarrow> ('nodes, 'db) Collector \<Rightarrow> Duration \<Rightarrow> error option select
     \<Rightarrow> (gstate \<times> ('nodes, 'db, 'f) result) option" where
  "sender_select E coll d sel =
     (case sel of
        Sel_stop \<Rightarrow>
          (case chan_recv (stop coll) of
             None \<Rightarrow> None
           | Some x \<Rightarrow> Some (G_exited, (coll, [], None)))
      | Sel_tick werr \<Rightarrow>
          (case sendOnce E coll werr of
             (coll', evs, Some msg) \<Rightarrow> Some (G_exited, (coll', evs, Some msg))
           | (coll', evs, None) \<Rightarrow> Some (G_select d, (coll', evs, None))))"

definition globalStatsWorker_newTicker ::
  "('nodes, 'db) Collector \<Rightarrow> gstate \<times> ('nodes, 'db, 'f) result" where
  "globalStatsWorker_newTicker coll =
     (case NewTicker Minute of
        Inl msg \<Rightarrow> (G_exited, (coll, [], Some msg))
      | Inr d \<Rightarrow> (G_select d, (coll, [], None)))"

definition globalStatsWorker_select ::
  "('nodes, 'f) env \<Rightarrow> ('nodes, 'db) Collector \<Rightarrow> Duration \<Rightarrow> int select
     \<Rightarrow> (gstate \<times> ('nodes, 'db, 'f) result) option" where
  "globalStatsWorker_select E coll d sel =
     (case sel of
        Sel_stop \<Rightarrow>
          (case chan_recv (stop coll) of
             None \<Rightarrow> None
           | Some x \<Rightarrow> Some (G_exited, (coll, [], None)))
      | Sel_tick now \<Rightarrow>
          (case saveGlobalStats E coll now of
             (coll', evs, Some msg) \<Rightarrow> Some (G_exited, (coll', evs, Some msg))
           | (coll', evs, None) \<Rightarrow> Some (G_select d, (coll', evs, None))))"

section \<open>The running program\<close>

text \<open>
  The collector with its goroutines: the receiver and the parser, the statistics worker if
  it was spawned, and one goroutine for every \<^verbatim>\<open>Start\<close> that went through. \<open>trace\<close> is
  everything done so far. A panic in a goroutine of the collector is never recovered and ends
  the program: \<open>crash\<close>. A panic in a method called from outside unwinds into the caller,
  who may recover from it, so the program may go on.
\<close>

text \<open>The number of goroutines of one kind that a list of events spawned.\<close>

fun spawned :: "task \<Rightarrow> 'f event list \<Rightarrow> nat" where
  "spawned t [] = 0"
| "spawned t (Go t' # evs) = (if t' = t then 1 else 0) + spawned t evs"
| "spawned t (e # evs) = spawned t evs"

record ('nodes, 'db, 'f) world =
  coll :: "('nodes, 'db) Collector"
  receiver_st :: rstate
  parser_st :: pstate
  stats_st :: "gstate option"
  sender_sts :: "gstate list"
  trace :: "'f event list"
  crash :: "string option"

definition panic_events :: "string option \<Rightarrow> 'f event list" where
  "panic_events p = (case p of None \<Rightarrow> [] | Some msg \<Rightarrow> [Panics msg])"

definition caller_returns ::
  "('nodes, 'db, 'f) world \<Rightarrow> ('nodes, 'db, 'f) result \<Rightarrow> ('nodes, 'db, 'f) world" where
  "caller_returns w r =
     (case r of (c, evs, p) \<Rightarrow> w\<lparr>coll := c, trace := trace w @ evs @ panic_events p\<rparr>)"

definition goroutine_returns ::
  "('nodes, 'db, 'f) world \<Rightarrow> ('nodes, 'db, 'f) result \<Rightarrow> ('nodes, 'db, 'f) world" where
  "goroutine_returns w r =
     (case r of (c, evs, p) \<Rightarrow>
        w\<lparr>coll := c, trace := trace w @ evs @ panic_events p, crash := p\<rparr>)"

text \<open>The program right after \<^verbatim>\<open>NewCollector\<close> returned; there is none if it panicked.\<close>

definition new_world ::
  "('nodes, 'f) env \<Rightarrow> 'db option \<Rightarrow> 'nodes \<Rightarrow> string \<Rightarrow> ('nodes, 'db, 'f) world option" where
  "new_world E db0 nodes0 iface =
     (case NewCollector E db0 nodes0 iface of
        Inl msg \<Rightarrow> None
      | Inr (c, evs) \<Rightarrow>
          Some \<lparr>coll = c,
                receiver_st = R_read,
                parser_st = P_range,
                stats_st = (if 0 < spawned T_globalStatsWorker evs then Some G_newTicker else None),
                sender_sts = replicate (spawned T_sender evs) G_sendOnce,
                trace = evs,
                crash = None\<rparr>)"

datatype action =
    Call_Start Duration
  | Call_Close
  | Call_SendPacket string "error option"
  | Receiver_read read_result
  | Receiver_send
  | Parser_next
  | Sender_sendOnce nat "error option"
  | Sender_newTicker nat
  | Sender_select nat "error option select"
  | Stats_newTicker
  | Stats_select "int select"

fun act ::
  "('nodes, 'f) env \<Rightarrow> ('nodes, 'db, 'f) world \<Rightarrow> action \<Rightarrow> ('nodes, 'db, 'f) world option" where
  "act E w (Call_Start i) =
     (case Start (coll w) i of
        (c, evs, p) \<Rightarrow>
          Some ((caller_returns w (c, evs, p))
                  \<lparr>sender_sts := sender_sts w @ replicate (spawned T_sender evs) G_sendOnce\<rparr>))"
| "act E w Call_Close = Some (caller_returns w (Close (coll w)))"
| "act E w (Call_SendPacket address werr) =
     Some (caller_returns w (SendPacket E (coll w) address werr))"
| "act E w (Receiver_read rr) =
     (if receiver_st w \<noteq> R_read then None
      else if connection_closed (coll w) \<and> is_datagram rr then None
      else (case receiver_read E rr of
              (r, evs) \<Rightarrow> Some (w\<lparr>receiver_st := r, trace := trace w @ evs\<rparr>)))"
| "act E w Receiver_send =
     (case receiver_st w of
        R_send resp \<Rightarrow>
          (case receiver_send (coll w) resp of
             None \<Rightarrow> None
           | Some (r, res) \<Rightarrow> Some ((goroutine_returns w res)\<lparr>receiver_st := r\<rparr>))
      | _ \<Rightarrow> None)"
| "act E w Parser_next =
     (if parser_st w \<noteq> P_range then None
      else (case parser_next E (coll w) of
              None \<Rightarrow> None
            | Some (p, c, evs) \<Rightarrow> Some (w\<lparr>coll := c, parser_st := p, trace := trace w @ evs\<rparr>)))"
| "act E w (Sender_sendOnce k werr) =
     (if k < length (sender_sts w) \<and> sender_sts w ! k = G_sendOnce
      then (case go_sendOnce E (coll w) werr of
              (g, res) \<Rightarrow> Some ((goroutine_returns w res)\<lparr>sender_sts := (sender_sts w)[k := g]\<rparr>))
      else None)"
| "act E w (Sender_newTicker k) =
     (if k < length (sender_sts w) \<and> sender_sts w ! k = G_newTicker
      then (case sender_newTicker (coll w) of
              (g, res) \<Rightarrow> Some ((goroutine_returns w res)\<lparr>sender_sts := (sender_sts w)[k := g]\<rparr>))
      else None)"
| "act E w (Sender_select k sel) =
     (if k < length (sender_sts w)
      then (case sender_sts w ! k of
              G_select d \<Rightarrow>
                (case sender_select E (coll w) d sel of
                   None \<Rightarrow> None
                 | Some (g, res) \<Rightarrow>
                     Some ((goroutine_returns w res)\<lparr>sender_sts := (sender_sts w)[k := g]\<rparr>))
            | _ \<Rightarrow> None)
      else None)"
| "act E w Stats_newTicker =
     (case stats_st w of
        Some G_newTicker \<Rightarrow>
          (case globalStatsWorker_newTicker (coll w) of
             (g, res) \<Rightarrow> Some ((goroutine_returns w res)\<lparr>stats_st := Some g\<rparr>))
      | _ \<Rightarrow> None)"
| "act E w (Stats_select sel) =
     (case stats_st w of
        Some (G_select d) \<Rightarrow>
          (case globalStatsWorker_select E (coll w) d sel of
             None \<Rightarrow> None
           | Some (g, res) \<Rightarrow> Some ((goroutine_returns w res)\<lparr>stats_st := Some g\<rparr>))
      | _ \<Rightarrow> None)"

text \<open>
  A read from the closed socket returns an error, never a datagram. Nothing runs after a
  crash.
\<close>

definition step ::
  "('nodes, 'f) env \<Rightarrow> ('nodes, 'db, 'f) world \<Rightarrow> action \<Rightarrow> ('nodes, 'db, 'f) world option" where
  "step E w a = (if crash w \<noteq> None then None else act E w a)"

fun run ::
  "('nodes, 'f) env \<Rightarrow> ('nodes, 'db, 'f) world \<Rightarrow> action list \<Rightarrow> ('nodes, 'db, 'f) world option" where
  "run E w [] = Some w"
| "run E w (a # as) = (case step E w a of None \<Rightarrow> None | Some w' \<Rightarrow> run E w' as)"

section \<open>Reading a trace\<close>

text \<open>The identifier an event of \<^const>\<open>saveResponse\<close> was produced for.\<close>

fun event_NodeID :: "'f event \<Rightarrow> string option" where
  "event_NodeID (Log_invalid_NodeID nodeID addr) = Some nodeID"
| "event_NodeID (Nodes_Update nodeID res) = Some nodeID"
| "event_NodeID (Db_Add nodeID node) = Some nodeID"
| "event_NodeID e = None"

fun is_Nodes_Update :: "'f event \<Rightarrow> bool" where
  "is_Nodes_Update (Nodes_Update nodeID res) = True"
| "is_Nodes_Update e = False"

fun is_Db_Add :: "'f event \<Rightarrow> bool" where
  "is_Db_Add (Db_Add nodeID node) = True"
| "is_Db_Add e = False"

fun is_WriteToUDP :: "'f event \<Rightarrow> bool" where
  "is_WriteToUDP (WriteToUDP payload addr) = True"
| "is_WriteToUDP e = False"

text \<open>The calls of the sink: \<^verbatim>\<open>Add\<close>, \<^verbatim>\<open>AddPoint\<close> and \<^verbatim>\<open>AddCounterMap\<close>.\<close>

fun is_sink_write :: "'f event \<Rightarrow> bool" where
  "is_sink_write (Db_Add nodeID node) = True"
| "is_sink_write (Db_AddPoint name tags fs t) = True"
| "is_sink_write (Db_AddCounterMap name m) = True"
| "is_sink_write e = False"

text \<open>The entries sent to the queue and the entries received from it, oldest first.\<close>

fun sent :: "'f event list \<Rightarrow> Response list" where
  "sent [] = []"
| "sent (Queue_send r # evs) = r # sent evs"
| "sent (e # evs) = sent evs"

fun recvd :: "'f event list \<Rightarrow> Response list" where
  "recvd [] = []"
| "recvd (Queue_recv r # evs) = r # recvd evs"
| "recvd (e # evs) = recvd evs"

section \<open>Invariants of the running program\<close>

text \<open>
  The sink: the field \<open>db\<close> never changes; the statistics worker exists exactly when there
  is a sink, it was spawned once then and never otherwise, its ticker has a period of one
  minute, and a program without a sink has called no method of it.
\<close>

definition sink_inv :: "'db option \<Rightarrow> ('nodes, 'db, 'f) world \<Rightarrow> bool" where
  "sink_inv db0 w \<longleftrightarrow>
     db (coll w) = db0 \<and>
     (stats_st w = None) = (db0 = None) \<and>
     (case stats_st w of
        Some (G_select d) \<Rightarrow> d = Minute
      | Some G_sendOnce \<Rightarrow> False
      | _ \<Rightarrow> True) \<and>
     spawned T_globalStatsWorker (trace w) = (if db0 = None then 0 else 1) \<and>
     (db0 = None \<longrightarrow> filter is_sink_write (trace w) = [])"

text \<open>
  The queue: its capacity stays 400, it never holds more, and what was sent to it is what
  was received from it followed by what it holds.
\<close>

definition queue_inv :: "('nodes, 'db, 'f) world \<Rightarrow> bool" where
  "queue_inv w \<longleftrightarrow>
     cap (queue (coll w)) = 400 \<and>
     length (buf (queue (coll w))) \<le> 400 \<and>
     sent (trace w) = recvd (trace w) @ buf (queue (coll w))"

text \<open>\<^verbatim>\<open>Start\<close>: at most one goroutine was spawned by it, and then the interval is set.\<close>

definition start_inv :: "('nodes, 'db, 'f) world \<Rightarrow> bool" where
  "start_inv w \<longleftrightarrow>
     length (sender_sts w) \<le> 1 \<and>
     (sender_sts w \<noteq> [] \<longrightarrow> interval (coll w) \<noteq> 0) \<and>
     spawned T_sender (trace w) = length (sender_sts w)"

text \<open>
  \<^verbatim>\<open>Close\<close>: the queue is closed exactly when the stop channel is, the socket is closed
  then, and nothing is ever sent on the stop channel.
\<close>

definition close_inv :: "('nodes, 'db, 'f) world \<Rightarrow> bool" where
  "close_inv w \<longleftrightarrow>
     closed (queue (coll w)) = closed (stop (coll w)) \<and>
     (closed (stop (coll w)) \<longrightarrow> connection_closed (coll w)) \<and>
     buf (stop (coll w)) = []"

section \<open>An example environment\<close>

text \<open>
  A small environment on which the model can be run: a registry kept as a list of pairs
  whose \<^verbatim>\<open>Update\<close> merges the sections of a payload into the node, a resolver that knows
  the wildcard address and the multicast group on \<^verbatim>\<open>eth0\<close>, and a stand-in for the decoder
  that reads the first byte as the section (\<^verbatim>\<open>i\<close>, \<^verbatim>\<open>n\<close>, \<^verbatim>\<open>s\<close>) and the rest as its
  NodeID.
\<close>

type_synonym ex_nodes = "(string \<times> Node) list"

definition ex_Update :: "ex_nodes \<Rightarrow> string \<Rightarrow> ResponseData \<Rightarrow> Node \<times> ex_nodes" where
  "ex_Update ns nodeID res =
     (let old = (case map_of ns nodeID of
                   Some n \<Rightarrow> n
                 | None \<Rightarrow> \<lparr>Node.Statistics = None, Node.Nodeinfo = None, Node.Neighbours = None\<rparr>);
          node = \<lparr>Node.Statistics =
                    (case ResponseData.Statistics res of None \<Rightarrow> Node.Statistics old | Some v \<Rightarrow> Some v),
                  Node.Nodeinfo =
                    (case ResponseData.NodeInfo res of None \<Rightarrow> Node.Nodeinfo old | Some v \<Rightarrow> Some v),
                  Node.Neighbours =
                    (case ResponseData.Neighbours res of None \<Rightarrow> Node.Neighbours old | Some v \<Rightarrow> Some v)\<rparr>
      in (node, (nodeID, node) # filter (\<lambda>kv. fst kv \<noteq> nodeID) ns))"

definition ex_empty :: ResponseData where
  "ex_empty =
     \<lparr>ResponseData.NodeInfo = None, ResponseData.Statistics = None, ResponseData.Neighbours = None\<rparr>"

definition ex_decode :: "bytes \<Rightarrow> ResponseData \<times> error option" where
  "ex_decode raw =
     (case raw of
        [] \<Rightarrow> (ex_empty, Some ''unexpected EOF'')
      | c # i \<Rightarrow>
          if c = CHR ''i'' then (ex_empty\<lparr>ResponseData.NodeInfo := Some \<lparr>NodeInfo.NodeID = i\<rparr>\<rparr>, None)
          else if c = CHR ''n'' then (ex_empty\<lparr>ResponseData.Neighbours := Some \<lparr>Neighbours.NodeID = i\<rparr>\<rparr>, None)
          else if c = CHR ''s'' then (ex_empty\<lparr>ResponseData.Statistics := Some \<lparr>Statistics.NodeID = i\<rparr>\<rparr>, None)
          else (ex_empty, Some ''flate: corrupt input before offset 1''))"

definition ex_ResolveUDPAddr :: "string \<Rightarrow> string \<Rightarrow> error + UDPAddr" where
  "ex_ResolveUDPAddr network address =
     (if address = ''[::]:0'' then Inr \<lparr>IP = ''::'', Port = 0, Zone = []\<rparr>
      else if address = ''[ff02:0:0:0:0:0:2:1001%eth0]:1001''
      then Inr \<lparr>IP = ''ff02::2:1001'', Port = 1001, Zone = ''eth0''\<rparr>
      else Inl ''no such network interface'')"

definition ex_env :: "(ex_nodes, nat) env" where
  "ex_env =
     \<lparr>ResolveUDPAddr = ex_ResolveUDPAddr,
      ListenUDP = (\<lambda>network addr. None),
      inflate_decode = ex_decode,
      nodes_Update = ex_Update,
      NewGlobalStats = (\<lambda>ns. \<lparr>Fields = length ns, Firmwares = Map.empty, Models = Map.empty\<rparr>),
      multiCastGroup = ''ff02:0:0:0:0:0:2:1001'',
      port = ''1001'',
      maxDataGramSize = 8192,
      MeasurementGlobal = ''global'',
      MeasurementFirmware = ''firmware'',
      MeasurementModel = ''model''\<rparr>"

definition ex_src :: UDPAddr where
  "ex_src = \<lparr>IP = ''203.0.113.5'', Port = 1234, Zone = []\<rparr>"

text \<open>The collector and the program that \<^const>\<open>NewCollector\<close> builds on \<^verbatim>\<open>eth0\<close>.\<close>

definition ex_coll :: "unit option \<Rightarrow> (ex_nodes, unit) Collector" where
  "ex_coll db0 =
     \<lparr>connection_closed = False,
      queue = make_chan 400,
      multicastAddr = ''[ff02:0:0:0:0:0:2:1001%eth0]:1001'',
      db = db0,
      nodes = [],
      interval = 0,
      stop = make_chan 0\<rparr>"

definition ex_world :: "unit option \<Rightarrow> (ex_nodes, unit, nat) world" where
  "ex_world db0 =
     \<lparr>coll = ex_coll db0,
      receiver_st = R_read,
      parser_st = P_range,
      stats_st = (if db0 = None then None else Some G_newTicker),
      sender_sts = [],
      trace = [SetReadBuffer 8192, Go T_receiver, Go T_parser] @
              (if db0 = None then [] else [Go T_globalStatsWorker]),
      crash = None\<rparr>"

text \<open>Payloads, a merged node, a registry that has seen the node, and queued entries.\<close>

definition ex_both :: ResponseData where
  "ex_both =
     \<lparr>ResponseData.NodeInfo = Some \<lparr>NodeInfo.NodeID = ''aabbccddeeff''\<rparr>,
      ResponseData.Statistics = Some \<lparr>Statistics.NodeID = ''112233445566''\<rparr>,
      ResponseData.Neighbours = None\<rparr>"

definition ex_neigh_stat :: ResponseData where
  "ex_neigh_stat =
     \<lparr>ResponseData.NodeInfo = None,
      ResponseData.Statistics = Some \<lparr>Statistics.NodeID = ''112233445566''\<rparr>,
      ResponseData.Neighbours = Some \<lparr>Neighbours.NodeID = ''aabbccddeeff''\<rparr>\<rparr>"

definition ex_stat :: ResponseData where
  "ex_stat = ex_empty\<lparr>ResponseData.Statistics := Some \<lparr>Statistics.NodeID = ''112233445566''\<rparr>\<rparr>"

definition ex_info :: ResponseData where
  "ex_info = ex_empty\<lparr>ResponseData.NodeInfo := Some \<lparr>NodeInfo.NodeID = ''aabbccddeeff''\<rparr>\<rparr>"

definition ex_merged :: Node where
  "ex_merged =
     \<lparr>Node.Statistics = Some \<lparr>Statistics.NodeID = ''aabbccddeeff''\<rparr>,
      Node.Nodeinfo = Some \<lparr>NodeInfo.NodeID = ''aabbccddeeff''\<rparr>,
      Node.Neighbours = None\<rparr>"

definition ex_seen :: "unit option \<Rightarrow> (ex_nodes, unit) Collector" where
  "ex_seen db0 = (ex_coll db0)\<lparr>nodes := [(''aabbccddeeff'', ex_merged\<lparr>Node.Nodeinfo := None\<rparr>)]\<rparr>"

definition ex_entry :: "bytes \<Rightarrow> Response" where
  "ex_entry raw = \<lparr>Address = ex_src, Raw = raw\<rparr>"

definition ex_queued :: "unit option \<Rightarrow> Response list \<Rightarrow> (ex_nodes, unit, nat) world" where
  "ex_queued db0 rs =
     (ex_world db0)\<lparr>coll := (ex_coll db0)\<lparr>queue := \<lparr>buf = rs, cap = 400, closed = False\<rparr>\<rparr>\<rparr>"

section \<open>What a step does\<close>

text \<open>
  Apart from the registry, \<^const>\<open>saveResponse\<close> and the parser's body leave the collector
  as it is; sending and the statistics writer leave all of it.
\<close>

lemma saveResponse_frame:
  "db (fst (saveResponse E c a r)) = db c"
  "queue (fst (saveResponse E c a r)) = queue c"
  "stop (fst (saveResponse E c a r)) = stop c"
  "interval (fst (saveResponse E c a r)) = interval c"
  "connection_closed (fst (saveResponse E c a r)) = connection_closed c"
  "multicastAddr (fst (saveResponse E c a r)) = multicastAddr c"
  by (simp_all add: saveResponse_def Let_def split: prod.splits)

lemma parser_body_frame:
  "db (fst (parser_body E c obj)) = db c"
  "queue (fst (parser_body E c obj)) = queue c"
  "stop (fst (parser_body E c obj)) = stop c"
  "interval (fst (parser_body E c obj)) = interval c"
  "connection_closed (fst (parser_body E c obj)) = connection_closed c"
  "multicastAddr (fst (parser_body E c obj)) = multicastAddr c"
  by (simp_all add: parser_body_def saveResponse_frame split: prod.splits option.splits)

lemma SendPacket_coll: "fst (SendPacket E c address werr) = c"
  by (simp add: SendPacket_def split: sum.splits)

lemma saveGlobalStats_coll: "fst (saveGlobalStats E c now) = c"
  by (simp add: saveGlobalStats_def Let_def split: option.splits)

text \<open>The queue entries in a trace.\<close>

lemma sent_append [simp]: "sent (xs @ ys) = sent xs @ sent ys"
  by (induction xs rule: sent.induct) simp_all

lemma recvd_append [simp]: "recvd (xs @ ys) = recvd xs @ recvd ys"
  by (induction xs rule: recvd.induct) simp_all

lemma saveResponse_no_queue_events [simp]:
  "sent (snd (saveResponse E c a r)) = []" "recvd (snd (saveResponse E c a r)) = []"
  by (simp_all add: saveResponse_def Let_def split: prod.splits)

lemma parser_body_no_queue_events [simp]:
  "sent (snd (parser_body E c obj)) = []" "recvd (snd (parser_body E c obj)) = []"
  by (simp_all add: parser_body_def split: prod.splits option.splits)

lemma SendPacket_no_queue_events [simp]:
  "sent (fst (snd (SendPacket E c address werr))) = []"
  "recvd (fst (snd (SendPacket E c address werr))) = []"
  by (simp_all add: SendPacket_def split: sum.splits option.splits)

lemma saveGlobalStats_no_queue_events [simp]:
  "sent (fst (snd (saveGlobalStats E c now))) = []"
  "recvd (fst (snd (saveGlobalStats E c now))) = []"
  by (simp_all add: saveGlobalStats_def Let_def split: option.splits)

lemma panic_events_no_queue_events [simp]:
  "sent (panic_events p) = []" "recvd (panic_events p) = []"
  by (simp_all add: panic_events_def split: option.splits)

lemma receiver_read_no_queue_events [simp]:
  "sent (snd (receiver_read E rr)) = []" "recvd (snd (receiver_read E rr)) = []"
  by (simp_all add: receiver_read_def Let_def split: read_result.splits)

text \<open>Each action of the program, with the functions it calls unfolded.\<close>

lemma act_Call_Start:
  "act E w (Call_Start i) =
     Some (if interval (coll w) \<noteq> 0 then w\<lparr>trace := trace w @ [Panics ''already started'']\<rparr>
           else if sint i \<le> 0 then w\<lparr>trace := trace w @ [Panics ''invalid collector interval'']\<rparr>
           else w\<lparr>coll := (coll w)\<lparr>interval := i\<rparr>, trace := trace w @ [Go T_sender],
                  sender_sts := sender_sts w @ [G_sendOnce]\<rparr>)"
  by (simp add: Start_def caller_returns_def panic_events_def)

lemma act_Call_Close:
  "act E w Call_Close =
     Some (if closed (stop (coll w)) then w\<lparr>trace := trace w @ [Panics ''close of closed channel'']\<rparr>
           else if closed (queue (coll w))
           then w\<lparr>coll := (coll w)\<lparr>stop := (stop (coll w))\<lparr>closed := True\<rparr>, connection_closed := True\<rparr>,
                  trace := trace w @ [Close_stop, Close_connection, Panics ''close of closed channel'']\<rparr>
           else w\<lparr>coll := (coll w)\<lparr>stop := (stop (coll w))\<lparr>closed := True\<rparr>, connection_closed := True,
                                   queue := (queue (coll w))\<lparr>closed := True\<rparr>\<rparr>,
                  trace := trace w @ [Close_stop, Close_connection, Close_queue]\<rparr>)"
  by (simp add: Close_def chan_close_def caller_returns_def panic_events_def Let_def)

lemma act_Call_SendPacket:
  "act E w (Call_SendPacket address werr) =
     Some (w\<lparr>trace := trace w @ fst (snd (SendPacket E (coll w) address werr))
                @ panic_events (snd (snd (SendPacket E (coll w) address werr)))\<rparr>)"
  by (simp add: SendPacket_def caller_returns_def split: sum.splits)

lemma act_Receiver_read:
  "act E w (Receiver_read rr) =
     (if receiver_st w \<noteq> R_read \<or> (connection_closed (coll w) \<and> is_datagram rr) then None
      else Some (w\<lparr>receiver_st := fst (receiver_read E rr),
                   trace := trace w @ snd (receiver_read E rr)\<rparr>))"
  by (simp add: case_prod_beta)

lemma act_Receiver_send:
  "act E w Receiver_send =
     (case receiver_st w of
        R_send resp \<Rightarrow>
          if closed (queue (coll w))
          then Some (w\<lparr>receiver_st := R_exited,
                       trace := trace w @ [Panics ''send on closed channel''],
                       crash := Some ''send on closed channel''\<rparr>)
          else if length (buf (queue (coll w))) < cap (queue (coll w))
          then Some (w\<lparr>coll := (coll w)\<lparr>queue := (queue (coll w))\<lparr>buf := buf (queue (coll w)) @ [resp]\<rparr>\<rparr>,
                       receiver_st := R_read,
                       trace := trace w @ [Queue_send resp],
                       crash := None\<rparr>)
          else None
      | _ \<Rightarrow> None)"
  by (simp add: receiver_send_def chan_send_def goroutine_returns_def panic_events_def
      split: rstate.splits)

lemma act_Parser_next:
  "act E w Parser_next =
     (if parser_st w \<noteq> P_range then None
      else (case buf (queue (coll w)) of
              [] \<Rightarrow> if closed (queue (coll w)) then Some (w\<lparr>parser_st := P_exited\<rparr>) else None
            | obj # rest \<Rightarrow>
                Some (w\<lparr>coll := fst (parser_body E ((coll w)\<lparr>queue := (queue (coll w))\<lparr>buf := rest\<rparr>\<rparr>) obj),
                        trace := trace w @ Queue_recv obj #
                          snd (parser_body E ((coll w)\<lparr>queue := (queue (coll w))\<lparr>buf := rest\<rparr>\<rparr>) obj)\<rparr>)))"
  by (simp add: parser_next_def chan_recv_def case_prod_beta split: list.splits)

lemma act_Sender_sendOnce:
  "act E w (Sender_sendOnce k werr) =
     (if k < length (sender_sts w) \<and> sender_sts w ! k = G_sendOnce
      then Some (w\<lparr>trace := trace w @ fst (snd (SendPacket E (coll w) (multicastAddr (coll w)) werr))
                       @ panic_events (snd (snd (SendPacket E (coll w) (multicastAddr (coll w)) werr))),
                   crash := snd (snd (SendPacket E (coll w) (multicastAddr (coll w)) werr)),
                   sender_sts := (sender_sts w)
                     [k := if snd (snd (SendPacket E (coll w) (multicastAddr (coll w)) werr)) = None
                           then G_newTicker else G_exited]\<rparr>)
      else None)"
  by (simp add: go_sendOnce_def sendOnce_def SendPacket_def goroutine_returns_def
      split: sum.splits)

lemma act_Sender_newTicker:
  "act E w (Sender_newTicker k) =
     (if k < length (sender_sts w) \<and> sender_sts w ! k = G_newTicker
      then Some (if sint (interval (coll w)) \<le> 0
                 then w\<lparr>trace := trace w @ [Panics ''non-positive interval for NewTicker''],
                        crash := Some ''non-positive interval for NewTicker'',
                        sender_sts := (sender_sts w)[k := G_exited]\<rparr>
                 else w\<lparr>crash := None,
                        sender_sts := (sender_sts w)[k := G_select (interval (coll w))]\<rparr>)
      else None)"
  by (simp add: sender_newTicker_def NewTicker_def goroutine_returns_def panic_events_def)

lemma act_Sender_select_tick:
  "act E w (Sender_select k (Sel_tick werr)) =
     (if k < length (sender_sts w)
      then (case sender_sts w ! k of
              G_select d \<Rightarrow>
                Some (w\<lparr>trace := trace w @ fst (snd (SendPacket E (coll w) (multicastAddr (coll w)) werr))
                       @ panic_events (snd (snd (SendPacket E (coll w) (multicastAddr (coll w)) werr))),
                   crash := snd (snd (SendPacket E (coll w) (multicastAddr (coll w)) werr)),
                   sender_sts := (sender_sts w)
                     [k := if snd (snd (SendPacket E (coll w) (multicastAddr (coll w)) werr)) = None
                           then G_select d else G_exited]\<rparr>)
            | _ \<Rightarrow> None)
      else None)"
  by (simp add: sender_select_def sendOnce_def SendPacket_def goroutine_returns_def
      split: sum.splits gstate.splits)

lemma act_Sender_select_stop:
  "act E w (Sender_select k Sel_stop) =
     (if k < length (sender_sts w)
      then (case sender_sts w ! k of
              G_select d \<Rightarrow>
                if chan_recv (stop (coll w)) = None then None
                else Some (w\<lparr>crash := None, sender_sts := (sender_sts w)[k := G_exited]\<rparr>)
            | _ \<Rightarrow> None)
      else None)"
  by (simp add: sender_select_def goroutine_returns_def panic_events_def
      split: gstate.splits option.splits)

lemma act_Stats_newTicker:
  "act E w Stats_newTicker =
     (if stats_st w = Some G_newTicker
      then Some (w\<lparr>crash := None, stats_st := Some (G_select Minute)\<rparr>)
      else None)"
  by (simp add: globalStatsWorker_newTicker_def NewTicker_def Minute_def goroutine_returns_def
      panic_events_def split: option.splits gstate.splits)

lemma act_Stats_select_tick:
  "act E w (Stats_select (Sel_tick now)) =
     (case stats_st w of
        Some (G_select d) \<Rightarrow>
          Some (w\<lparr>trace := trace w @ fst (snd (saveGlobalStats E (coll w) now))
                       @ panic_events (snd (snd (saveGlobalStats E (coll w) now))),
                  crash := snd (snd (saveGlobalStats E (coll w) now)),
                  stats_st := Some (if snd (snd (saveGlobalStats E (coll w) now)) = None
                                    then G_select d else G_exited)\<rparr>)
      | _ \<Rightarrow> None)"
  by (simp add: globalStatsWorker_select_def saveGlobalStats_def goroutine_returns_def Let_def
      split: option.splits gstate.splits)

lemma act_Stats_select_stop:
  "act E w (Stats_select Sel_stop) =
     (case stats_st w of
        Some (G_select d) \<Rightarrow>
          if chan_recv (stop (coll w)) = None then None
          else Some (w\<lparr>crash := None, stats_st := Some G_exited\<rparr>)
      | _ \<Rightarrow> None)"
  by (simp add: globalStatsWorker_select_def goroutine_returns_def panic_events_def
      split: option.splits gstate.splits)

lemmas act_eqs = act_Call_Start act_Call_Close act_Call_SendPacket act_Receiver_read
  act_Receiver_send act_Parser_next act_Sender_sendOnce act_Sender_newTicker
  act_Sender_select_tick act_Sender_select_stop act_Stats_newTicker act_Stats_select_tick
  act_Stats_select_stop

declare act.simps [simp del]

section \<open>Runs and invariants\<close>

lemma run_append:
  "run E w (as @ bs) = (case run E w as of None \<Rightarrow> None | Some w' \<Rightarrow> run E w' bs)"
  by (induction as arbitrary: w) (auto split: option.splits)

lemma run_invariant:
  assumes "run E w0 as = Some w" and "P w0"
    and "\<And>w a w'. P w \<Longrightarrow> step E w a = Some w' \<Longrightarrow> P w'"
  shows "P w"
  using assms(1,2)
proof (induction as arbitrary: w0)
  case Nil
  then show ?case by simp
next
  case (Cons a as)
  then show ?case using assms(3) by (auto split: option.splits)
qed

text \<open>What the functions of the collector leave out of their events.\<close>

lemma spawned_append [simp]: "spawned t (xs @ ys) = spawned t xs + spawned t ys"
  by (induction t xs rule: spawned.induct) simp_all

lemma SendPacket_no_sink [simp]:
  "filter is_sink_write (fst (snd (SendPacket E c address werr))) = []"
  "spawned t (fst (snd (SendPacket E c address werr))) = 0"
  by (simp_all add: SendPacket_def split: sum.splits option.splits)

lemma panic_events_no_sink [simp]:
  "filter is_sink_write (panic_events p) = []" "spawned t (panic_events p) = 0"
  by (simp_all add: panic_events_def split: option.splits)

lemma receiver_read_no_sink [simp]:
  "filter is_sink_write (snd (receiver_read E rr)) = []"
  "spawned t (snd (receiver_read E rr)) = 0"
  by (simp_all add: receiver_read_def Let_def split: read_result.splits)

lemma saveResponse_no_sink [simp]:
  "db c = None \<Longrightarrow> filter is_sink_write (snd (saveResponse E c a r)) = []"
  "spawned t (snd (saveResponse E c a r)) = 0"
  by (simp_all add: saveResponse_def Let_def split: prod.splits)

lemma parser_body_no_sink [simp]:
  "db c = None \<Longrightarrow> filter is_sink_write (snd (parser_body E c obj)) = []"
  "spawned t (snd (parser_body E c obj)) = 0"
  by (simp_all add: parser_body_def split: prod.splits option.splits)

lemma saveGlobalStats_spawned [simp]:
  "spawned t (fst (snd (saveGlobalStats E c now))) = 0"
  by (simp add: saveGlobalStats_def Let_def split: option.splits)

text \<open>Each invariant holds of the new program and is kept by every step.\<close>

lemma sink_inv_new: "new_world E db0 n0 iface = Some w \<Longrightarrow> sink_inv db0 w"
  by (auto simp: new_world_def NewCollector_def sink_inv_def Let_def
      split: sum.splits option.splits if_splits)

lemma sink_inv_step:
  assumes "sink_inv db0 w" and "step E w a = Some w'"
  shows "sink_inv db0 w'"
proof (cases a)
  case (Sender_select k sel)
  with assms show ?thesis
    by (cases sel)
      (auto simp: step_def sink_inv_def act_eqs split: if_splits gstate.splits)
next
  case (Stats_select sel)
  with assms show ?thesis
    by (cases sel)
      (auto simp: step_def sink_inv_def act_eqs split: if_splits gstate.splits option.splits)
next
  case Parser_next
  with assms show ?thesis
    by (auto simp: step_def sink_inv_def act_eqs parser_body_frame
        split: if_splits list.splits)
qed (use assms in \<open>auto simp: step_def sink_inv_def act_eqs
        split: if_splits gstate.splits option.splits rstate.splits\<close>)

lemma queue_inv_new: "new_world E db0 n0 iface = Some w \<Longrightarrow> queue_inv w"
  by (auto simp: new_world_def NewCollector_def queue_inv_def make_chan_def Let_def
      split: sum.splits option.splits if_splits)

lemma queue_inv_step:
  assumes "queue_inv w" and "step E w a = Some w'"
  shows "queue_inv w'"
proof (cases a)
  case (Sender_select k sel)
  with assms show ?thesis
    by (cases sel)
      (auto simp: step_def queue_inv_def act_eqs split: if_splits gstate.splits)
next
  case (Stats_select sel)
  with assms show ?thesis
    by (cases sel)
      (auto simp: step_def queue_inv_def act_eqs split: if_splits gstate.splits option.splits)
next
  case Parser_next
  with assms show ?thesis
    by (auto simp: step_def queue_inv_def act_eqs parser_body_frame
        split: if_splits list.splits)
qed (use assms in \<open>auto simp: step_def queue_inv_def act_eqs
        split: if_splits gstate.splits option.splits rstate.splits\<close>)

lemma start_inv_new: "new_world E db0 n0 iface = Some w \<Longrightarrow> start_inv w"
  by (auto simp: new_world_def NewCollector_def start_inv_def Let_def
      split: sum.splits option.splits if_splits)

lemma start_inv_step:
  assumes "start_inv w" and "step E w a = Some w'"
  shows "start_inv w'"
proof (cases a)
  case (Sender_select k sel)
  with assms show ?thesis
    by (cases sel)
      (auto simp: step_def start_inv_def act_eqs split: if_splits gstate.splits)
next
  case (Stats_select sel)
  with assms show ?thesis
    by (cases sel)
      (auto simp: step_def start_inv_def act_eqs split: if_splits gstate.splits option.splits)
next
  case Parser_next
  with assms show ?thesis
    by (auto simp: step_def start_inv_def act_eqs parser_body_frame
        split: if_splits list.splits)
qed (use assms in \<open>auto simp: step_def start_inv_def act_eqs
        split: if_splits gstate.splits option.splits rstate.splits\<close>)

lemma close_inv_new: "new_world E db0 n0 iface = Some w \<Longrightarrow> close_inv w"
  by (auto simp: new_world_def NewCollector_def close_inv_def make_chan_def Let_def
      split: sum.splits option.splits if_splits)

lemma close_inv_step:
  assumes "close_inv w" and "step E w a = Some w'"
  shows "close_inv w'"
proof (cases a)
  case (Sender_select k sel)
  with assms show ?thesis
    by (cases sel)
      (auto simp: step_def close_inv_def act_eqs split: if_splits gstate.splits)
next
  case (Stats_select sel)
  with assms show ?thesis
    by (cases sel)
      (auto simp: step_def close_inv_def act_eqs split: if_splits gstate.splits option.splits)
next
  case Parser_next
  with assms show ?thesis
    by (auto simp: step_def close_inv_def act_eqs parser_body_frame
        split: if_splits list.splits)
qed (use assms in \<open>auto simp: step_def close_inv_def act_eqs
        split: if_splits gstate.splits option.splits rstate.splits\<close>)

text \<open>So each invariant holds in every state the program reaches.\<close>

lemma crash_None_same: "crash w = None \<Longrightarrow> w\<lparr>crash := None\<rparr> = w"
  by (cases w) simp

lemma reach_sink_inv:
  "new_world E db0 n0 iface = Some w0 \<Longrightarrow> run E w0 as = Some w \<Longrightarrow> sink_inv db0 w"
  by (erule run_invariant) (auto intro: sink_inv_new sink_inv_step)

lemma reach_queue_inv:
  "new_world E db0 n0 iface = Some w0 \<Longrightarrow> run E w0 as = Some w \<Longrightarrow> queue_inv w"
  by (erule run_invariant) (auto intro: queue_inv_new queue_inv_step)

lemma reach_start_inv:
  "new_world E db0 n0 iface = Some w0 \<Longrightarrow> run E w0 as = Some w \<Longrightarrow> start_inv w"
  by (erule run_invariant) (auto intro: start_inv_new start_inv_step)

lemma reach_close_inv:
  "new_world E db0 n0 iface = Some w0 \<Longrightarrow> run E w0 as = Some w \<Longrightarrow> close_inv w"
  by (erule run_invariant) (auto intro: close_inv_new close_inv_step)

text \<open>The example program is the one \<^const>\<open>NewCollector\<close> builds.\<close>

lemma ex_new: "new_world ex_env db0 [] ''eth0'' = Some (ex_world db0)"
  by (simp add: new_world_def NewCollector_def ex_env_def ex_ResolveUDPAddr_def JoinHostPort_def
      ex_world_def ex_coll_def Let_def)

section \<open>The identifier of a payload\<close>

text \<open>
  C1. The NodeID of a payload is taken from the first section that is present, in the order
  nodeinfo, neighbours, statistics. With no section the identifier stays empty, and
  \<^const>\<open>saveResponse\<close> only logs it. When nodeinfo and statistics are both present with
  different identifiers, every event of \<^const>\<open>saveResponse\<close> carries the identifier of
  nodeinfo and none carries that of statistics.
\<close>

theorem C1_nodeid_priority:
  "(ResponseData.NodeInfo res = Some i \<longrightarrow> searchNodeID res = NodeInfo.NodeID i) \<and>
   (ResponseData.NodeInfo res = None \<and> ResponseData.Neighbours res = Some n
      \<longrightarrow> searchNodeID res = Neighbours.NodeID n) \<and>
   (ResponseData.NodeInfo res = None \<and> ResponseData.Neighbours res = None \<and>
    ResponseData.Statistics res = Some s
      \<longrightarrow> searchNodeID res = Statistics.NodeID s) \<and>
   (ResponseData.NodeInfo res = None \<and> ResponseData.Neighbours res = None \<and>
    ResponseData.Statistics res = None
      \<longrightarrow> searchNodeID res = [] \<and>
          saveResponse E c addr res = (c, [Log_invalid_NodeID [] addr])) \<and>
   (ResponseData.NodeInfo res = Some i \<and> ResponseData.Statistics res = Some s \<and>
    NodeInfo.NodeID i \<noteq> Statistics.NodeID s
      \<longrightarrow> (\<forall>e \<in> set (snd (saveResponse E c addr res)).
             event_NodeID e = Some (NodeInfo.NodeID i) \<and>
             event_NodeID e \<noteq> Some (Statistics.NodeID s)))"
  by (auto simp: searchNodeID_def saveResponse_def Let_def split: prod.splits if_splits)

theorem C1_nodeid_priority_witness:
  "ResponseData.NodeInfo ex_both = Some \<lparr>NodeInfo.NodeID = ''aabbccddeeff''\<rparr> \<and>
   ResponseData.Statistics ex_both = Some \<lparr>Statistics.NodeID = ''112233445566''\<rparr> \<and>
   searchNodeID ex_both = ''aabbccddeeff'' \<and>
   map event_NodeID (snd (saveResponse ex_env (ex_coll (Some ())) ex_src ex_both)) =
     [Some ''aabbccddeeff'', Some ''aabbccddeeff''] \<and>
   ResponseData.NodeInfo ex_neigh_stat = None \<and>
   searchNodeID ex_neigh_stat = ''aabbccddeeff'' \<and>
   ResponseData.Neighbours ex_stat = None \<and>
   searchNodeID ex_stat = ''112233445566'' \<and>
   ResponseData.Statistics ex_empty = None \<and>
   searchNodeID ex_empty = [] \<and>
   saveResponse ex_env (ex_coll None) ex_src ex_empty =
     (ex_coll None, [Log_invalid_NodeID [] ex_src])"
  using
    C1_nodeid_priority [of ex_both "\<lparr>NodeInfo.NodeID = ''aabbccddeeff''\<rparr>" _
      "\<lparr>Statistics.NodeID = ''112233445566''\<rparr>" ex_env "ex_coll (Some ())" ex_src]
    C1_nodeid_priority [of ex_neigh_stat _ "\<lparr>Neighbours.NodeID = ''aabbccddeeff''\<rparr>" _
      ex_env "ex_coll None" ex_src]
    C1_nodeid_priority [of ex_stat _ _ "\<lparr>Statistics.NodeID = ''112233445566''\<rparr>"
      ex_env "ex_coll None" ex_src]
    C1_nodeid_priority [of ex_empty _ _ _ ex_env "ex_coll None" ex_src]
  by (simp add: ex_both_def ex_neigh_stat_def ex_stat_def ex_empty_def saveResponse_def
      searchNodeID_def ex_env_def ex_Update_def ex_coll_def Let_def)

section \<open>Messages that are dropped\<close>

text \<open>
  C2. When the parser takes an entry that does not decode, or whose identifier is not 12
  bytes long (the empty identifier of a payload with no section among them), the step does
  two things only: it takes the entry off the queue and writes one log line, with the source
  address and, for a decode failure, the raw bytes. The registry is not called and keeps its
  state, the sink is not called, the parser stays in its loop, the program does not crash,
  and the next entry of the queue is received by the parser's next step.
\<close>

theorem C2_per_message_errors_absorbed:
  assumes "crash w = None" and "parser_st w = P_range"
    and "buf (queue (coll w)) = obj # rest"
    and "snd (parse E obj) \<noteq> None \<or> length (searchNodeID (fst (parse E obj))) \<noteq> 12"
  shows "\<exists>w'. step E w Parser_next = Some w' \<and>
           w' = w\<lparr>coll := (coll w)\<lparr>queue := (queue (coll w))\<lparr>buf := rest\<rparr>\<rparr>,
                  trace := trace w @
                    [Queue_recv obj,
                     (case parse E obj of
                        (d, Some err) \<Rightarrow> Log_unable_to_decode (Address obj) err (Raw obj)
                      | (d, None) \<Rightarrow> Log_invalid_NodeID (searchNodeID d) (Address obj))]\<rparr> \<and>
           (\<forall>obj' rest'. rest = obj' # rest' \<longrightarrow>
              (\<exists>w''. step E w' Parser_next = Some w'' \<and>
                 recvd (trace w'') = recvd (trace w) @ [obj, obj']))"
proof -
  let ?w' = "w\<lparr>coll := (coll w)\<lparr>queue := (queue (coll w))\<lparr>buf := rest\<rparr>\<rparr>,
                  trace := trace w @
                    [Queue_recv obj,
                     (case parse E obj of
                        (d, Some err) \<Rightarrow> Log_unable_to_decode (Address obj) err (Raw obj)
                      | (d, None) \<Rightarrow> Log_invalid_NodeID (searchNodeID d) (Address obj))]\<rparr>"
  have 1: "step E w Parser_next = Some ?w'"
    using assms
    by (auto simp: step_def act_Parser_next parser_body_def saveResponse_def Let_def
        split: prod.splits option.splits)
  have 2: "\<exists>w''. step E ?w' Parser_next = Some w'' \<and>
             recvd (trace w'') = recvd (trace w) @ [obj, obj']" if "rest = obj' # rest'"
    for obj' rest'
    using assms(1,2) that
    by (simp add: step_def act_Parser_next recvd_append split: prod.splits option.splits)
  from 1 2 show ?thesis by blast
qed

theorem C2_per_message_errors_absorbed_witness:
  "crash (ex_queued None [ex_entry ''xyz'', ex_entry ''nshort'', ex_entry ''saabbccddeeff'']) = None \<and>
   snd (parse ex_env (ex_entry ''xyz'')) \<noteq> None \<and>
   step ex_env (ex_queued None [ex_entry ''xyz'', ex_entry ''nshort'', ex_entry ''saabbccddeeff''])
     Parser_next =
     Some ((ex_queued None [ex_entry ''nshort'', ex_entry ''saabbccddeeff''])
             \<lparr>trace := trace (ex_world None) @
                [Queue_recv (ex_entry ''xyz''),
                 Log_unable_to_decode ex_src ''flate: corrupt input before offset 1'' ''xyz'']\<rparr>) \<and>
   length (searchNodeID (fst (parse ex_env (ex_entry ''nshort'')))) = 5 \<and>
   step ex_env (ex_queued None [ex_entry ''nshort'', ex_entry ''saabbccddeeff'']) Parser_next =
     Some ((ex_queued None [ex_entry ''saabbccddeeff''])
             \<lparr>trace := trace (ex_world None) @
                [Queue_recv (ex_entry ''nshort''), Log_invalid_NodeID ''short'' ex_src]\<rparr>)"
proof -
  have p1: "parse ex_env (ex_entry ''xyz'') = (ex_empty, Some ''flate: corrupt input before offset 1'')"
    by (simp add: parse_def ex_env_def ex_entry_def ex_decode_def)
  have p2: "parse ex_env (ex_entry ''nshort'') =
      (ex_empty\<lparr>ResponseData.Neighbours := Some \<lparr>Neighbours.NodeID = ''short''\<rparr>\<rparr>, None)"
    by (simp add: parse_def ex_env_def ex_entry_def ex_decode_def)
  have i2: "searchNodeID (ex_empty\<lparr>ResponseData.Neighbours := Some \<lparr>Neighbours.NodeID = ''short''\<rparr>\<rparr>) = ''short''"
    by (simp add: searchNodeID_def ex_empty_def)
  note a = C2_per_message_errors_absorbed [of
      "ex_queued None [ex_entry ''xyz'', ex_entry ''nshort'', ex_entry ''saabbccddeeff'']"
      "ex_entry ''xyz''" "[ex_entry ''nshort'', ex_entry ''saabbccddeeff'']" ex_env]
  note b = C2_per_message_errors_absorbed [of
      "ex_queued None [ex_entry ''nshort'', ex_entry ''saabbccddeeff'']"
      "ex_entry ''nshort''" "[ex_entry ''saabbccddeeff'']" ex_env]
  show ?thesis
    using a b
    by (simp add: p1 p2 i2) (simp add: ex_queued_def ex_world_def ex_entry_def)
qed

section \<open>Messages that are merged\<close>

text \<open>
  C3. For a payload whose identifier is 12 bytes long, \<^const>\<open>saveResponse\<close> calls the
  registry's \<^verbatim>\<open>Update\<close> once, with the identifier and the payload, and then calls the
  sink's \<^verbatim>\<open>Add\<close> with the identifier and the node that \<^verbatim>\<open>Update\<close> returned exactly when
  the collector has a sink and that node has statistics. Nothing else is done.
\<close>

theorem C3_update_once_then_add:
  assumes "length (searchNodeID res) = 12"
    and "nodes_Update E (nodes c) (searchNodeID res) res = (node, nodes')"
  shows "saveResponse E c addr res =
           (c\<lparr>nodes := nodes'\<rparr>,
            Nodes_Update (searchNodeID res) res #
            (if db c \<noteq> None \<and> Node.Statistics node \<noteq> None
             then [Db_Add (searchNodeID res) node] else [])) \<and>
         filter is_Nodes_Update (snd (saveResponse E c addr res)) =
           [Nodes_Update (searchNodeID res) res] \<and>
         filter is_Db_Add (snd (saveResponse E c addr res)) =
           (if db c \<noteq> None \<and> Node.Statistics node \<noteq> None
            then [Db_Add (searchNodeID res) node] else [])"
  using assms by (simp add: saveResponse_def Let_def)

theorem C3_update_once_then_add_witness:
  "length (searchNodeID ex_info) = 12 \<and>
   nodes_Update ex_env (nodes (ex_seen (Some ()))) (searchNodeID ex_info) ex_info =
     (ex_merged, [(''aabbccddeeff'', ex_merged)]) \<and>
   saveResponse ex_env (ex_seen (Some ())) ex_src ex_info =
     ((ex_seen (Some ()))\<lparr>nodes := [(''aabbccddeeff'', ex_merged)]\<rparr>,
      [Nodes_Update ''aabbccddeeff'' ex_info, Db_Add ''aabbccddeeff'' ex_merged]) \<and>
   saveResponse ex_env (ex_seen None) ex_src ex_info =
     ((ex_seen None)\<lparr>nodes := [(''aabbccddeeff'', ex_merged)]\<rparr>,
      [Nodes_Update ''aabbccddeeff'' ex_info])"
proof -
  have l: "length (searchNodeID ex_info) = 12"
    by (simp add: searchNodeID_def ex_info_def ex_empty_def)
  have i: "searchNodeID ex_info = ''aabbccddeeff''"
    by (simp add: searchNodeID_def ex_info_def ex_empty_def)
  have u: "nodes_Update ex_env (nodes (ex_seen db0)) (searchNodeID ex_info) ex_info =
     (ex_merged, [(''aabbccddeeff'', ex_merged)])" for db0 :: "unit option"
    by (simp add: i) (simp add: ex_env_def ex_Update_def ex_seen_def ex_coll_def ex_merged_def
        ex_info_def ex_empty_def Let_def)
  show ?thesis
    using C3_update_once_then_add [OF l u, of "Some ()" ex_src]
      C3_update_once_then_add [OF l u, of None ex_src] l u [of "Some ()"]
    by (simp add: i) (simp add: ex_seen_def ex_coll_def ex_merged_def)
qed

section \<open>Starting the scheduler\<close>

text \<open>
  C4. \<^const>\<open>Start\<close> with an interval that is not positive panics and leaves the collector
  as it was, with no event: no goroutine is spawned and nothing is sent. After a
  \<^const>\<open>Start\<close> that went through, every further \<^const>\<open>Start\<close> panics with
  \<^verbatim>\<open>already started\<close>, again with no event. In every state the program reaches,
  \<^const>\<open>Start\<close> has spawned at most one goroutine, so there is never a second sending loop.
\<close>

theorem C4_start_fails_fast:
  "(sint i \<le> 0 \<longrightarrow>
      (\<exists>msg. (Start c i :: ('nodes, 'db, 'f) result) = (c, [], Some msg))) \<and>
   ((Start c i :: ('nodes, 'db, 'f) result) = (c', evs, None) \<longrightarrow>
      (Start c' j :: ('nodes, 'db, 'f) result) = (c', [], Some ''already started'')) \<and>
   (new_world E db0 n0 iface = Some w0 \<and> run E w0 as = Some (w :: ('nodes, 'db, 'f) world) \<longrightarrow>
      length (sender_sts w) \<le> 1 \<and> spawned T_sender (trace w) \<le> 1)"
proof (intro conjI impI)
  assume "sint i \<le> 0"
  then show "\<exists>msg. (Start c i :: ('nodes, 'db, 'f) result) = (c, [], Some msg)"
    by (simp add: Start_def)
next
  assume "(Start c i :: ('nodes, 'db, 'f) result) = (c', evs, None)"
  then show "(Start c' j :: ('nodes, 'db, 'f) result) = (c', [], Some ''already started'')"
    by (auto simp: Start_def split: if_splits)
next
  assume "new_world E db0 n0 iface = Some w0 \<and> run E w0 as = Some w"
  then have "start_inv w" by (auto intro: reach_start_inv)
  then show "length (sender_sts w) \<le> 1" "spawned T_sender (trace w) \<le> 1"
    by (simp_all add: start_inv_def)
qed

theorem C4_start_fails_fast_witness:
  "sint (- 5 :: Duration) \<le> 0 \<and>
   (Start (ex_coll None) (- 5) :: (ex_nodes, unit, nat) result) =
     (ex_coll None, [], Some ''invalid collector interval'') \<and>
   (Start (ex_coll None) 0 :: (ex_nodes, unit, nat) result) =
     (ex_coll None, [], Some ''invalid collector interval'') \<and>
   (Start (ex_coll None) 10000000000 :: (ex_nodes, unit, nat) result) =
     ((ex_coll None)\<lparr>interval := 10000000000\<rparr>, [Go T_sender], None) \<and>
   (Start ((ex_coll None)\<lparr>interval := 10000000000\<rparr>) 5 :: (ex_nodes, unit, nat) result) =
     ((ex_coll None)\<lparr>interval := 10000000000\<rparr>, [], Some ''already started'') \<and>
   run ex_env (ex_world None) [Call_Start 10000000000, Call_Start 5] =
     Some ((ex_world None)
             \<lparr>coll := (ex_coll None)\<lparr>interval := 10000000000\<rparr>,
              sender_sts := [G_sendOnce],
              trace := trace (ex_world None) @ [Go T_sender, Panics ''already started'']\<rparr>)"
proof -
  have s: "(Start (ex_coll None) 10000000000 :: (ex_nodes, unit, nat) result) =
     ((ex_coll None)\<lparr>interval := 10000000000\<rparr>, [Go T_sender], None)"
    by (simp add: Start_def ex_coll_def)
  have r: "run ex_env (ex_world None) [Call_Start 10000000000, Call_Start 5] =
     Some ((ex_world None)
             \<lparr>coll := (ex_coll None)\<lparr>interval := 10000000000\<rparr>,
              sender_sts := [G_sendOnce],
              trace := trace (ex_world None) @ [Go T_sender, Panics ''already started'']\<rparr>)"
    by (simp add: step_def act_eqs ex_world_def ex_coll_def)
  show ?thesis
    using C4_start_fails_fast [where i = "- 5" and c = "ex_coll None" and E = ex_env
        and ?'f = nat and ?db0.0 = None and ?n0.0 = "[]" and iface = "''eth0''"
        and ?w0.0 = "ex_world None" and as = "[Call_Start 10000000000, Call_Start 5]"]
      C4_start_fails_fast [where i = 10000000000 and c = "ex_coll None" and E = ex_env
        and ?'f = nat and j = 5 and evs = "[Go T_sender]"
        and c' = "(ex_coll None)\<lparr>interval := 10000000000\<rparr>"]
      C4_start_fails_fast [where i = 0 and c = "ex_coll None" and E = ex_env and ?'f = nat]
      s r ex_new [of None]
    by (simp del: run.simps add: Start_def ex_coll_def)
qed

section \<open>The statistics worker\<close>

text \<open>
  C7. \<^const>\<open>NewCollector\<close> spawns the statistics worker exactly when it is given a sink, and
  nothing spawns it later. Its ticker has a period of one minute. At every tick the worker
  makes three calls of the sink and nothing else: one \<^verbatim>\<open>AddPoint\<close> with the fields of the
  statistics and the time, one \<^verbatim>\<open>AddCounterMap\<close> with the firmware counts and one with the
  model counts, whatever the maps hold. Without a sink there is no worker, no step of it can
  be taken, and the trace holds no call of the sink.
\<close>

theorem C7_aggregator_three_writes:
  assumes "new_world E db0 n0 iface = Some w0" and "run E w0 as = Some w"
  shows "spawned T_globalStatsWorker (trace w0) = (if db0 = None then 0 else 1) \<and>
         spawned T_globalStatsWorker (trace w) = (if db0 = None then 0 else 1) \<and>
         (stats_st w = None) = (db0 = None) \<and>
         (\<forall>d now. stats_st w = Some (G_select d) \<and> crash w = None \<longrightarrow>
            d = Minute \<and>
            step E w (Stats_select (Sel_tick now)) =
              Some (w\<lparr>trace := trace w @
                      [Db_AddPoint (MeasurementGlobal E) None
                         (Fields (NewGlobalStats E (nodes (coll w)))) now,
                       Db_AddCounterMap (MeasurementFirmware E)
                         (Firmwares (NewGlobalStats E (nodes (coll w)))),
                       Db_AddCounterMap (MeasurementModel E)
                         (Models (NewGlobalStats E (nodes (coll w))))]\<rparr>)) \<and>
         (db0 = None \<longrightarrow>
            filter is_sink_write (trace w) = [] \<and>
            step E w Stats_newTicker = None \<and>
            (\<forall>sel. step E w (Stats_select sel) = None))"
proof -
  have inv0: "sink_inv db0 w0" using assms(1) by (rule sink_inv_new)
  have inv: "sink_inv db0 w" using assms by (rule reach_sink_inv)
  have tick: "d = Minute \<and>
            step E w (Stats_select (Sel_tick now)) =
              Some (w\<lparr>trace := trace w @
                      [Db_AddPoint (MeasurementGlobal E) None
                         (Fields (NewGlobalStats E (nodes (coll w)))) now,
                       Db_AddCounterMap (MeasurementFirmware E)
                         (Firmwares (NewGlobalStats E (nodes (coll w)))),
                       Db_AddCounterMap (MeasurementModel E)
                         (Models (NewGlobalStats E (nodes (coll w))))]\<rparr>)"
    if "stats_st w = Some (G_select d) \<and> crash w = None" for d now
  proof -
    from that inv have db: "db (coll w) \<noteq> None" and d: "d = Minute"
      by (auto simp: sink_inv_def)
    from that have same: "w\<lparr>trace := t, crash := None, stats_st := Some (G_select d)\<rparr> = w\<lparr>trace := t\<rparr>" for t
      by (cases w) simp
    from that db d show ?thesis
      by (auto simp: step_def act_eqs saveGlobalStats_def Let_def panic_events_def same)
  qed
  have none: "step E w Stats_newTicker = None \<and> (\<forall>sel. step E w (Stats_select sel) = None)"
    if "db0 = None"
  proof -
    from that inv have st: "stats_st w = None" by (simp add: sink_inv_def)
    have "step E w (Stats_select sel) = None" for sel
      using st by (cases sel) (simp_all add: step_def act_eqs)
    with st show ?thesis by (simp add: step_def act_eqs)
  qed
  from inv0 inv tick none show ?thesis
    by (simp add: sink_inv_def)
qed

theorem C7_aggregator_three_writes_witness:
  "new_world ex_env (Some ()) [] ''eth0'' = Some (ex_world (Some ())) \<and>
   run ex_env (ex_world (Some ())) [Stats_newTicker] =
     Some ((ex_world (Some ()))\<lparr>stats_st := Some (G_select Minute)\<rparr>) \<and>
   step ex_env ((ex_world (Some ()))\<lparr>stats_st := Some (G_select Minute)\<rparr>)
       (Stats_select (Sel_tick 7)) =
     Some ((ex_world (Some ()))
             \<lparr>stats_st := Some (G_select Minute),
              trace := trace (ex_world (Some ())) @
                [Db_AddPoint ''global'' None 0 7,
                 Db_AddCounterMap ''firmware'' Map.empty,
                 Db_AddCounterMap ''model'' Map.empty]\<rparr>) \<and>
   new_world ex_env None [] ''eth0'' = Some (ex_world None) \<and>
   run ex_env (ex_world None) [] = Some (ex_world None) \<and>
   step ex_env (ex_world None) Stats_newTicker = None \<and>
   step ex_env (ex_world None) (Stats_select (Sel_tick 7)) = None"
proof -
  have r: "run ex_env (ex_world (Some ())) [Stats_newTicker] =
     Some ((ex_world (Some ()))\<lparr>stats_st := Some (G_select Minute)\<rparr>)"
    by (simp add: step_def act_eqs ex_world_def)
  have r0: "run ex_env (ex_world None) [] = Some (ex_world None)"
    by simp
  have c: "stats_st ((ex_world (Some ()))\<lparr>stats_st := Some (G_select Minute)\<rparr>) = Some (G_select Minute) \<and>
      crash ((ex_world (Some ()))\<lparr>stats_st := Some (G_select Minute)\<rparr>) = None"
    by (simp add: ex_world_def)
  have t: "step ex_env ((ex_world (Some ()))\<lparr>stats_st := Some (G_select Minute)\<rparr>)
       (Stats_select (Sel_tick 7)) =
     Some ((ex_world (Some ()))
             \<lparr>stats_st := Some (G_select Minute),
              trace := trace (ex_world (Some ())) @
                [Db_AddPoint ''global'' None 0 7,
                 Db_AddCounterMap ''firmware'' Map.empty,
                 Db_AddCounterMap ''model'' Map.empty]\<rparr>)"
    using C7_aggregator_three_writes [OF ex_new r, THEN conjunct2, THEN conjunct2, THEN conjunct2,
        THEN conjunct1, rule_format, OF c, of 7]
    by (simp add: ex_world_def ex_coll_def ex_env_def)
  have n: "step ex_env (ex_world None) Stats_newTicker = None \<and>
      step ex_env (ex_world None) (Stats_select (Sel_tick 7)) = None"
    using C7_aggregator_three_writes [OF ex_new r0] by simp
  from r r0 t n ex_new [of None] ex_new [of "Some ()"] show ?thesis
    by (simp del: run.simps)
qed

text \<open>
  C9. \<^const>\<open>saveGlobalStats\<close> runs only in the tick of the statistics worker. Whenever the
  program can take that step, the collector's \<open>db\<close> is not nil, so \<^const>\<open>saveGlobalStats\<close>
  does not panic on a nil sink: it makes its three calls and the program does not crash.
\<close>

theorem C9_sink_not_nil_when_stats_saved:
  assumes "new_world E db0 n0 iface = Some w0" and "run E w0 as = Some w"
    and "step E w (Stats_select (Sel_tick now)) = Some w'"
  shows "db (coll w) \<noteq> None \<and>
         snd (snd (saveGlobalStats E (coll w) now)) = None \<and>
         length (filter is_sink_write (fst (snd (saveGlobalStats E (coll w) now)))) = 3 \<and>
         crash w' = None"
proof -
  have inv: "sink_inv db0 w" using assms(1,2) by (rule reach_sink_inv)
  from assms(3) obtain d where d: "stats_st w = Some (G_select d)"
    by (auto simp: step_def act_eqs split: if_splits option.splits gstate.splits)
  with inv have db: "db (coll w) \<noteq> None" by (auto simp: sink_inv_def)
  then have ok: "snd (snd (saveGlobalStats E (coll w) now)) = None"
    "length (filter is_sink_write (fst (snd (saveGlobalStats E (coll w) now)))) = 3"
    by (auto simp: saveGlobalStats_def Let_def)
  with assms(3) d have "crash w' = None"
    by (auto simp: step_def act_eqs split: if_splits)
  with db ok show ?thesis by simp
qed

theorem C9_sink_not_nil_when_stats_saved_witness:
  "new_world ex_env (Some ()) [] ''eth0'' = Some (ex_world (Some ())) \<and>
   run ex_env (ex_world (Some ())) [Stats_newTicker] =
     Some ((ex_world (Some ()))\<lparr>stats_st := Some (G_select Minute)\<rparr>) \<and>
   step ex_env ((ex_world (Some ()))\<lparr>stats_st := Some (G_select Minute)\<rparr>)
       (Stats_select (Sel_tick 7)) =
     Some ((ex_world (Some ()))
             \<lparr>stats_st := Some (G_select Minute),
              trace := trace (ex_world (Some ())) @
                [Db_AddPoint ''global'' None 0 7,
                 Db_AddCounterMap ''firmware'' Map.empty,
                 Db_AddCounterMap ''model'' Map.empty]\<rparr>) \<and>
   db (coll ((ex_world (Some ()))\<lparr>stats_st := Some (G_select Minute)\<rparr>)) = Some ()"
proof -
  have r: "run ex_env (ex_world (Some ())) [Stats_newTicker] =
     Some ((ex_world (Some ()))\<lparr>stats_st := Some (G_select Minute)\<rparr>)"
    by (simp add: step_def act_eqs ex_world_def)
  have t: "step ex_env ((ex_world (Some ()))\<lparr>stats_st := Some (G_select Minute)\<rparr>)
       (Stats_select (Sel_tick 7)) =
     Some ((ex_world (Some ()))
             \<lparr>stats_st := Some (G_select Minute),
              trace := trace (ex_world (Some ())) @
                [Db_AddPoint ''global'' None 0 7,
                 Db_AddCounterMap ''firmware'' Map.empty,
                 Db_AddCounterMap ''model'' Map.empty]\<rparr>)"
    by (simp add: step_def act_eqs ex_world_def ex_coll_def saveGlobalStats_def ex_env_def
        panic_events_def Let_def)
  show ?thesis
    using C9_sink_not_nil_when_stats_saved [OF ex_new r t] r t ex_new [of "Some ()"]
    by (simp del: run.simps add: ex_world_def ex_coll_def)
qed

section \<open>The capacity of the queue\<close>

text \<open>
  C10. The queue is made with a capacity of 400, and in every state the program reaches
  its capacity is 400 and it holds at most 400 entries. The receiver's send blocks exactly
  when the queue is open and holds 400 entries.
\<close>

theorem C10_queue_capacity:
  assumes "new_world E db0 n0 iface = Some w0" and "run E w0 as = Some w"
  shows "cap (queue (coll w0)) = 400 \<and>
         cap (queue (coll w)) = 400 \<and>
         length (buf (queue (coll w))) \<le> 400 \<and>
         (\<forall>r. receiver_st w = R_send r \<and> crash w = None \<longrightarrow>
            (step E w Receiver_send = None) =
            (\<not> closed (queue (coll w)) \<and> length (buf (queue (coll w))) = 400))"
proof -
  have "queue_inv w0" using assms(1) by (rule queue_inv_new)
  moreover have inv: "queue_inv w" using assms by (rule reach_queue_inv)
  moreover have "(step E w Receiver_send = None) =
            (\<not> closed (queue (coll w)) \<and> length (buf (queue (coll w))) = 400)"
    if "receiver_st w = R_send r \<and> crash w = None" for r
    using that inv by (auto simp: step_def act_eqs queue_inv_def)
  ultimately show ?thesis by (simp add: queue_inv_def)
qed

theorem C10_queue_capacity_witness:
  "new_world ex_env None [] ''eth0'' = Some (ex_world None) \<and>
   run ex_env (ex_world None) [Receiver_read (Read_datagram ''saabbccddeeff'' ex_src)] =
     Some ((ex_world None)\<lparr>receiver_st := R_send (ex_entry ''saabbccddeeff'')\<rparr>) \<and>
   cap (queue (coll ((ex_world None)\<lparr>receiver_st := R_send (ex_entry ''saabbccddeeff'')\<rparr>))) = 400 \<and>
   step ex_env ((ex_world None)\<lparr>receiver_st := R_send (ex_entry ''saabbccddeeff'')\<rparr>)
       Receiver_send \<noteq> None"
proof -
  have r: "run ex_env (ex_world None) [Receiver_read (Read_datagram ''saabbccddeeff'' ex_src)] =
     Some ((ex_world None)\<lparr>receiver_st := R_send (ex_entry ''saabbccddeeff'')\<rparr>)"
    by (simp add: step_def act_eqs ex_world_def ex_coll_def receiver_read_def ex_env_def
        ex_entry_def Let_def)
  show ?thesis
    using C10_queue_capacity [OF ex_new r] r ex_new [of None]
    by (simp del: run.simps add: ex_world_def ex_coll_def make_chan_def)
qed

end
